theory Spec2Isabelle
  imports Main "HOL-Library.Word"
begin

section \<open>Platform types used by winrt\_websocket.cpp\<close>

text \<open>
  An \<open>HRESULT\<close> is a signed 32-bit code. The constants are the values of the Windows
  headers and of the library's public header; \<open>FAILED\<close> is the Windows macro
  \<^verbatim>\<open>((HRESULT)(hr) < 0)\<close>.
\<close>

type_synonym HRESULT = "32 word"

definition S_OK :: HRESULT where "S_OK = 0"
definition E_FAIL :: HRESULT where "E_FAIL = 0x80004005"
definition E_INVALIDARG :: HRESULT where "E_INVALIDARG = 0x80070057"
definition E_UNEXPECTED :: HRESULT where "E_UNEXPECTED = 0x8000FFFF"
definition E_PENDING :: HRESULT where "E_PENDING = 0x8000000A"
definition E_HC_NOT_INITIALISED :: HRESULT where "E_HC_NOT_INITIALISED = 0x89235001"

definition FAILED :: "HRESULT \<Rightarrow> bool" where
  "FAILED hr = (sint hr < 0)"

text \<open>\<open>winrt::Windows::Foundation::AsyncStatus\<close>, in the order of its values 0 to 3.\<close>

datatype AsyncStatus = Started | Completed | Canceled | Error

text \<open>
  What a call into the platform can throw, as the handlers of the source tell them apart:
  \<^verbatim>\<open>catch (winrt::hresult_error e)\<close> reads the code, \<^verbatim>\<open>catch (...)\<close> takes the rest.
\<close>

datatype exn = hresult_error HRESULT | other_exception

text \<open>
  Narrow strings (\<open>http_internal_string\<close>, \<open>PCSTR\<close>) are byte lists without the
  terminating NUL; wide strings (\<open>http_internal_wstring\<close>, \<open>hstring\<close>) are lists of
  16-bit code units. The strings of the source come from C strings and hold no NUL, so
  that \<open>c_str()\<close> hands over the whole string; it is left out.
\<close>

type_synonym wchar = "16 word"
type_synonym wstring = "wchar list"

section \<open>Sub-protocol parsing\<close>

text \<open>
  Modelled from the spec: \<open>trim_whitespace\<close> is a helper of the library that is not in
  this source file. The spec says it trims surrounding whitespace from an entry; whitespace
  is taken to be the six characters of the C locale's \<open>isspace\<close>: space, and the controls
  9 to 13.
\<close>

definition is_space :: "wchar \<Rightarrow> bool" where
  "is_space c = (c = 32 \<or> c = 9 \<or> c = 10 \<or> c = 11 \<or> c = 12 \<or> c = 13)"

definition trim_whitespace :: "wstring \<Rightarrow> wstring" where
  "trim_whitespace str = rev (dropWhile is_space (rev (dropWhile is_space str)))"

text \<open>
  \<open>std::getline(header, token, L',')\<close> on the characters still unread: it fails, and ends
  the loop, when nothing is left; otherwise the token is what precedes the first comma
  (or the end), and the comma itself is consumed.
\<close>

definition comma :: wchar where "comma = 44"

fun getline :: "wstring \<Rightarrow> (wstring \<times> wstring) option" where
  "getline [] = None"
| "getline (c # cs) =
     Some (takeWhile (\<lambda>x. x \<noteq> comma) (c # cs), drop 1 (dropWhile (\<lambda>x. x \<noteq> comma) (c # cs)))"

text \<open>The \<open>while\<close> loop of \<open>parse_subprotocols\<close>, with \<open>values\<close> as accumulator.\<close>

function parse_loop :: "wstring \<Rightarrow> wstring list \<Rightarrow> wstring list" where
  "parse_loop header vals =
     (case getline header of
        None \<Rightarrow> vals
      | Some (token, rest) \<Rightarrow>
          (let token' = trim_whitespace token
           in parse_loop rest (if token' \<noteq> [] then vals @ [token'] else vals)))"
  by pat_completeness auto
termination
proof (relation "measure (\<lambda>(header, vals). length header)")
  show "wf (measure (\<lambda>(header, vals). length header))" by simp
next
  fix header :: wstring and vals :: "wstring list" and x2 x y xa
  assume "getline header = Some x2" and "(x, y) = x2"
  then have "getline header = Some (x, y)" by simp
  then have "length y < length header"
    by (cases header)
      (auto simp: less_Suc_eq_le intro: le_trans [OF diff_le_self length_dropWhile_le])
  then show "((y, if xa \<noteq> [] then vals @ [xa] else vals), header, vals)
      \<in> measure (\<lambda>(header, vals). length header)"
    by simp
qed

declare parse_loop.simps [simp del]

text \<open>
  \<open>utf16_from_utf8\<close> is a helper of the library that is not in this source file: it is a
  parameter of every function that calls it.
\<close>

definition parse_subprotocols :: "(string \<Rightarrow> wstring) \<Rightarrow> string \<Rightarrow> wstring list" where
  "parse_subprotocols utf16_from_utf8 subProtocol = parse_loop (utf16_from_utf8 subProtocol) []"



text \<open>The conversion on 7-bit text: each byte becomes the code unit of the same value.\<close>

definition widen_ascii :: "string \<Rightarrow> wstring" where
  "widen_ascii s = map (\<lambda>c. of_nat (of_char c)) s"


section \<open>Data model\<close>

text \<open>
  Pointers are addresses (\<open>nat\<close>); a pointer that the source tests against \<open>nullptr\<close>
  is an \<open>option\<close>. The objects held through \<open>shared_ptr\<close> (sessions, implementation
  objects, outgoing messages) live in stores, from addresses to objects, in the process
  state below. \<open>std::make_shared<websocket_outgoing_message>()\<close> value-initialises the
  record, so the fields without an initialiser start at zero.
\<close>

type_synonym AsyncBlock = nat
type_synonym hc_websocket_handle_t = nat

record websocket_outgoing_message =
  m_message :: string
  m_asyncBlock :: AsyncBlock
  m_storeAsyncOp :: bool
  m_storeAsyncOpStatus :: AsyncStatus
  m_storeAsyncResult :: HRESULT
  m_id :: "64 word"

definition new_websocket_outgoing_message :: websocket_outgoing_message where
  "new_websocket_outgoing_message =
     \<lparr>m_message = [], m_asyncBlock = 0, m_storeAsyncOp = False,
      m_storeAsyncOpStatus = Started, m_storeAsyncResult = 0, m_id = 0\<rparr>"

text \<open>
  The transport object, as the calls made on it: the request headers set, the supported
  protocols appended, the message type, the address given to \<open>ConnectAsync\<close>, the event
  handlers registered and the \<open>Close\<close> requests, each in call order.
\<close>

datatype SocketMessageType = Binary | Utf8

record MessageWebSocket =
  OutputStream :: nat
  RequestHeaders :: "(wstring \<times> wstring) list"
  SupportedProtocols :: "wstring list"
  MessageType :: SocketMessageType
  MessageReceived :: bool
  Closed :: bool
  ConnectAsync :: "wstring option"
  Close :: "(16 word \<times> wstring) list"

definition new_MessageWebSocket :: "nat \<Rightarrow> MessageWebSocket" where
  "new_MessageWebSocket stream =
     \<lparr>OutputStream = stream, RequestHeaders = [], SupportedProtocols = [],
      MessageType = Binary, MessageReceived = False, Closed = False,
      ConnectAsync = None, Close = []\<rparr>"

text \<open>
  A \<open>DataWriter\<close>: the stream it writes to (none for a default-constructed writer) and
  the bytes written and not yet stored.
\<close>

record DataWriter =
  writer_stream :: "nat option"
  unstored :: string

definition new_DataWriter :: "nat option \<Rightarrow> DataWriter" where
  "new_DataWriter stream = \<lparr>writer_stream = stream, unstored = []\<rparr>"

record winrt_websocket_impl =
  m_messageWebSocket :: "MessageWebSocket option"
  m_messageDataWriter :: DataWriter
  m_connectAsyncOpResult :: HRESULT
  m_context :: "hc_websocket_handle_t option"
  m_connectAsyncOp :: bool
  m_outgoingMessageQueue :: "nat list"
  m_websocketHandle :: "hc_websocket_handle_t option"

text \<open>
  Modelled from the spec: \<open>hc_websocket\<close> is declared in HCWebSocket.h, which is not in
  this source file. The spec's session has an identity, a target address, a sub-protocol
  field, custom headers and the owned implementation object; the header accessors give
  the number of headers and the name and value at an index.
\<close>

record hc_websocket =
  websocket_id :: "64 word"
  uri :: string
  subProtocol :: string
  connectHeaders :: "(string \<times> string) list"
  impl :: "nat option"

definition HCWebSocketGetNumHeaders :: "hc_websocket \<Rightarrow> nat" where
  "HCWebSocketGetNumHeaders ws = length (connectHeaders ws)"

definition HCWebSocketGetHeaderAtIndex ::
  "hc_websocket \<Rightarrow> nat \<Rightarrow> string option \<times> string option" where
  "HCWebSocketGetHeaderAtIndex ws i =
     (if i < length (connectHeaders ws)
      then (Some (fst (connectHeaders ws ! i)), Some (snd (connectHeaders ws ! i)))
      else (None, None))"

record http_singleton =
  m_lastId :: "64 word"

record SendMessageCallbackContent =
  nextMessage :: nat
  websocketTask :: nat

text \<open>
  A \<open>DataWriterStoreOperation\<close> in flight, with what its \<open>Completed\<close> handler captured:
  the implementation object, the message and the async block; and the bytes being stored.
\<close>

record store_operation =
  op_websocketTask :: nat
  op_msg :: nat
  op_asyncBlock :: AsyncBlock
  op_bytes :: string

record WebSocketCompletionResult =
  websocket :: "hc_websocket_handle_t option"
  errorCode :: HRESULT
  platformErrorCode :: "32 word"

record AsyncProviderData =
  data_context :: "nat option"
  data_bufferSize :: nat

text \<open>
  Modelled from the spec: the task scheduler, the subscriber registry
  (\<open>HCWebSocketGetFunctions\<close>) and the library singleton (\<open>get_http_singleton\<close>) are
  not in this source file. The spec's \<open>submit(workItem, context)\<close> queues a work item
  that is invoked later, off the calling thread, and \<open>complete(token, result)\<close> delivers
  a completion: \<open>async_queue\<close> holds the calls begun and scheduled whose work has not
  run, \<open>completions\<close> the \<open>CompleteAsync\<close> calls in the order made. The spec has one
  subscriber per process for each event: \<open>messageFunc\<close> and \<open>closeFunc\<close> are the
  registered functions, null when \<open>None\<close>, and \<open>message_calls\<close> and \<open>close_calls\<close>
  the calls made to them. \<open>get_http_singleton\<close> returns null when \<open>singleton\<close> is
  \<open>None\<close>.

  The rest of the process is the stores: the session objects, the implementation objects
  and the outgoing messages by address (\<open>next_message\<close> is the address \<open>make_shared\<close>
  gives the next message), the \<open>shared_ptr_cache\<close> of callback contexts (the raw context
  is the index), and \<open>store_ops\<close>, the transport's store operations whose completion
  has not fired.
\<close>

record process =
  singleton :: "http_singleton option"
  websockets :: "hc_websocket_handle_t \<Rightarrow> hc_websocket"
  tasks :: "nat \<Rightarrow> winrt_websocket_impl"
  messages :: "nat \<Rightarrow> websocket_outgoing_message"
  next_message :: nat
  shared_ptr_cache :: "SendMessageCallbackContent list"
  async_queue :: "(AsyncBlock \<times> nat) list"
  store_ops :: "store_operation list"
  completions :: "(AsyncBlock \<times> HRESULT) list"
  messageFunc :: "nat option"
  closeFunc :: "nat option"
  message_calls :: "(nat \<times> hc_websocket_handle_t \<times> 8 word list) list"
  close_calls :: "(nat \<times> hc_websocket_handle_t \<times> 32 word) list"

text \<open>
  What lies outside this source file and is called by it: the two string conversions, the
  \<open>CATCH_RETURN()\<close> macro (the code it returns for an exception), the results of
  \<open>BeginAsync\<close> and \<open>ScheduleAsync\<close>, whether the transport throws when a request
  header is set, a protocol appended or an address parsed, and the size of the result
  structure.
\<close>

record platform =
  utf16_from_utf8 :: "string \<Rightarrow> wstring"
  to_hstring :: "string \<Rightarrow> wstring"
  CATCH_RETURN :: "exn \<Rightarrow> HRESULT"
  BeginAsync :: "AsyncBlock \<Rightarrow> HRESULT"
  ScheduleAsync :: "AsyncBlock \<Rightarrow> HRESULT"
  SetRequestHeader_throws :: "wstring \<Rightarrow> wstring \<Rightarrow> exn option"
  Append_throws :: "wstring \<Rightarrow> exn option"
  Uri_throws :: "wstring \<Rightarrow> exn option"
  sizeof_WebSocketCompletionResult :: nat

definition set_task :: "nat \<Rightarrow> winrt_websocket_impl \<Rightarrow> process \<Rightarrow> process" where
  "set_task t task p = p\<lparr>tasks := (tasks p)(t := task)\<rparr>"

definition fetch :: "SendMessageCallbackContent list \<Rightarrow> nat option \<Rightarrow> SendMessageCallbackContent option" where
  "fetch cache raw =
     (case raw of
        None \<Rightarrow> None
      | Some i \<Rightarrow> if i < length cache then Some (cache ! i) else None)"


section \<open>Receive dispatcher\<close>

text \<open>
  The event's reader: the bytes it holds, and whether \<open>ReadBytes\<close> throws. The event
  itself is the outcome of \<open>args.GetDataReader()\<close>. The message function is called
  with the address of the buffer the bytes were read into; the call is recorded with the
  function, the session and the buffer's bytes. Tracing is left out throughout.
\<close>

record DataReader =
  buffered :: "8 word list"
  ReadBytes_throws :: "exn option"

definition UnconsumedBufferLength :: "DataReader \<Rightarrow> nat" where
  "UnconsumedBufferLength reader = length (buffered reader)"

definition ReadBytes :: "DataReader \<Rightarrow> nat \<Rightarrow> exn + 8 word list" where
  "ReadBytes reader n =
     (case ReadBytes_throws reader of
        Some e \<Rightarrow> Inl e
      | None \<Rightarrow> Inr (take n (buffered reader)))"

text \<open>The body of the \<open>try\<close> block of \<open>ReceiveContext::OnReceive\<close>.\<close>

definition OnReceive_try :: "hc_websocket_handle_t \<Rightarrow> exn + DataReader \<Rightarrow> process \<Rightarrow> exn + process" where
  "OnReceive_try m_websocket args p =
     (case args of
        Inl e \<Rightarrow> Inl e
      | Inr reader \<Rightarrow>
          (let len = UnconsumedBufferLength reader
           in if len > 0
              then (case ReadBytes reader len of
                      Inl e \<Rightarrow> Inl e
                    | Inr payload \<Rightarrow>
                        (case messageFunc p of
                           Some f \<Rightarrow> Inr (p\<lparr>message_calls := message_calls p @ [(f, m_websocket, payload)]\<rparr>)
                         | None \<Rightarrow> Inr p))
              else Inr p))"

definition OnReceive :: "hc_websocket_handle_t \<Rightarrow> exn + DataReader \<Rightarrow> process \<Rightarrow> process" where
  "OnReceive m_websocket args p =
     (case OnReceive_try m_websocket args p of
        Inr p' \<Rightarrow> p'
      | Inl e \<Rightarrow> p)"

definition OnClosed :: "hc_websocket_handle_t \<Rightarrow> 32 word \<Rightarrow> process \<Rightarrow> process" where
  "OnClosed m_websocket code p =
     (case closeFunc p of
        Some f \<Rightarrow> p\<lparr>close_calls := close_calls p @ [(f, m_websocket, code)]\<rparr>
      | None \<Rightarrow> p)"

section \<open>Connect\<close>

text \<open>
  \<open>str_icmp\<close> is \<open>_stricmp(left, right) == 0\<close>: the strings are equal once the letters
  A to Z are put in lower case.
\<close>

definition tolower :: "char \<Rightarrow> char" where
  "tolower c =
     (if 65 \<le> (of_char c :: nat) \<and> (of_char c :: nat) \<le> 90
      then char_of ((of_char c :: nat) + 32) else c)"

definition str_icmp :: "string \<Rightarrow> string \<Rightarrow> bool" where
  "str_icmp left right = (map tolower left = map tolower right)"

definition protocolHeader :: string where
  "protocolHeader = ''Sec-WebSocket-Protocol''"

text \<open>
  The header loop of \<open>WebsocketConnectDoWork\<close>, over the name and value pointers found
  at the indices 0 to \<open>numHeaders - 1\<close>. It stops at the first \<open>SetRequestHeader\<close> that
  throws, and gives back the exception with the transport as it then is.
\<close>

fun set_request_headers ::
  "platform \<Rightarrow> (string option \<times> string option) list \<Rightarrow> MessageWebSocket \<Rightarrow> exn option \<times> MessageWebSocket" where
  "set_request_headers pf [] sock = (None, sock)"
| "set_request_headers pf ((Some headerName, Some headerValue) # rest) sock =
     (if \<not> str_icmp headerName protocolHeader
      then (case SetRequestHeader_throws pf (to_hstring pf headerName) (to_hstring pf headerValue) of
              Some e \<Rightarrow> (Some e, sock)
            | None \<Rightarrow>
                set_request_headers pf rest
                  (sock\<lparr>RequestHeaders :=
                     RequestHeaders sock @ [(to_hstring pf headerName, to_hstring pf headerValue)]\<rparr>))
      else set_request_headers pf rest sock)"
| "set_request_headers pf (_ # rest) sock = set_request_headers pf rest sock"

text \<open>The protocol loop, in the same way.\<close>

fun append_protocols ::
  "platform \<Rightarrow> wstring list \<Rightarrow> MessageWebSocket \<Rightarrow> exn option \<times> MessageWebSocket" where
  "append_protocols pf [] sock = (None, sock)"
| "append_protocols pf (val # rest) sock =
     (case Append_throws pf val of
        Some e \<Rightarrow> (Some e, sock)
      | None \<Rightarrow>
          append_protocols pf rest (sock\<lparr>SupportedProtocols := SupportedProtocols sock @ [val]\<rparr>))"

text \<open>
  \<open>WebsocketConnectDoWork\<close>. \<open>stream\<close> is the output stream of the transport object
  that \<open>MessageWebSocket()\<close> creates, \<open>connect_throws\<close> says whether \<open>ConnectAsync\<close>
  throws. The result is \<open>None\<close> when the session has no implementation object, which the
  source dereferences unchecked.
\<close>

definition WebsocketConnectDoWork ::
  "platform \<Rightarrow> nat \<Rightarrow> exn option \<Rightarrow> AsyncBlock \<Rightarrow> hc_websocket_handle_t \<Rightarrow> process
     \<Rightarrow> (HRESULT \<times> process) option" where
  "WebsocketConnectDoWork pf stream connect_throws asyncBlock w p =
     (case impl (websockets p w) of
        None \<Rightarrow> None
      | Some t \<Rightarrow>
          Some
           (let ws = websockets p w;
                task0 = tasks p t;
                numHeaders = HCWebSocketGetNumHeaders ws;
                (e1, sock1) =
                  set_request_headers pf (map (HCWebSocketGetHeaderAtIndex ws) [0..<numHeaders])
                    (new_MessageWebSocket stream)
            in case e1 of
                 Some e \<Rightarrow> (CATCH_RETURN pf e, set_task t (task0\<lparr>m_messageWebSocket := Some sock1\<rparr>) p)
               | None \<Rightarrow>
                  (let protocols = parse_subprotocols (utf16_from_utf8 pf) (subProtocol ws);
                       (e2, sock2) = append_protocols pf protocols sock1
                   in case e2 of
                        Some e \<Rightarrow>
                          (CATCH_RETURN pf e, set_task t (task0\<lparr>m_messageWebSocket := Some sock2\<rparr>) p)
                      | None \<Rightarrow>
                         (let task1 = task0\<lparr>m_context := Some w\<rparr>;
                              aUrl = utf16_from_utf8 pf (uri ws)
                          in case Uri_throws pf aUrl of
                               Some e \<Rightarrow>
                                 (CATCH_RETURN pf e,
                                  set_task t (task1\<lparr>m_messageWebSocket := Some sock2\<rparr>) p)
                             | None \<Rightarrow>
                                (let sock3 = sock2\<lparr>MessageReceived := True, Closed := True\<rparr>
                                 in case connect_throws of
                                      Some (hresult_error c) \<Rightarrow>
                                        (c, set_task t (task1\<lparr>m_messageWebSocket := Some sock3\<rparr>) p)
                                    | Some other_exception \<Rightarrow>
                                        (CATCH_RETURN pf other_exception,
                                         set_task t (task1\<lparr>m_messageWebSocket := Some sock3\<rparr>) p)
                                    | None \<Rightarrow>
                                        (E_PENDING,
                                         set_task t
                                           (task1\<lparr>m_messageWebSocket :=
                                                     Some (sock3\<lparr>ConnectAsync := Some aUrl\<rparr>),
                                                   m_connectAsyncOp := True\<rparr>) p))))))"

text \<open>
  The \<open>Completed\<close> handler of the connect operation. \<open>writer_throws\<close> says whether
  acquiring the writer, \<open>DataWriter(m_messageWebSocket.OutputStream())\<close>, throws. First
  the body of its \<open>try\<close> block, then the handler with its two \<open>catch\<close> clauses and the
  call of \<open>CompleteAsync\<close>. The result is \<open>None\<close> when the implementation object has no
  transport object.
\<close>

definition connect_completed_try ::
  "exn option \<Rightarrow> AsyncStatus \<Rightarrow> MessageWebSocket \<Rightarrow> winrt_websocket_impl \<Rightarrow> exn + winrt_websocket_impl" where
  "connect_completed_try writer_throws status sock task =
     (case writer_throws of
        Some e \<Rightarrow> Inl e
      | None \<Rightarrow>
          (let task1 = task\<lparr>m_messageDataWriter := new_DataWriter (Some (OutputStream sock))\<rparr>
           in if status = Error
              then Inr (task1\<lparr>m_connectAsyncOpResult := E_FAIL\<rparr>)
              else Inr (task1\<lparr>m_connectAsyncOpResult := S_OK\<rparr>)))"

definition ConnectAsync_Completed ::
  "exn option \<Rightarrow> AsyncStatus \<Rightarrow> AsyncBlock \<Rightarrow> nat \<Rightarrow> process \<Rightarrow> process option" where
  "ConnectAsync_Completed writer_throws status asyncBlock t p =
     (case m_messageWebSocket (tasks p t) of
        None \<Rightarrow> None
      | Some sock \<Rightarrow>
          Some
           (let task' =
                  (case connect_completed_try writer_throws status sock (tasks p t) of
                     Inr task1 \<Rightarrow> task1
                   | Inl (hresult_error c) \<Rightarrow> (tasks p t)\<lparr>m_connectAsyncOpResult := c\<rparr>
                   | Inl other_exception \<Rightarrow> (tasks p t)\<lparr>m_connectAsyncOpResult := E_FAIL\<rparr>)
            in (set_task t task' p)\<lparr>completions := completions p @ [(asyncBlock, S_OK)]\<rparr>))"

definition WebsocketConnectGetResult ::
  "hc_websocket_handle_t \<Rightarrow> process \<Rightarrow> (HRESULT \<times> WebSocketCompletionResult) option" where
  "WebsocketConnectGetResult w p =
     (case impl (websockets p w) of
        None \<Rightarrow> None
      | Some t \<Rightarrow>
          Some (S_OK,
                \<lparr>websocket = Some w,
                 errorCode = (if FAILED (m_connectAsyncOpResult (tasks p t)) then E_FAIL else S_OK),
                 platformErrorCode = m_connectAsyncOpResult (tasks p t)\<rparr>))"


section \<open>Outgoing messages\<close>

text \<open>
  \<open>MessageWebSocketSendMessage\<close>: under the lock, take the front message off the queue
  if there is one; then store a callback context for it, begin the async call on the
  message's async block and, if that succeeded, schedule it. The result of scheduling is
  dropped, as in the source. Handle reference counts are left out.
\<close>

definition MessageWebSocketSendMessage :: "platform \<Rightarrow> nat \<Rightarrow> process \<Rightarrow> process" where
  "MessageWebSocketSendMessage pf t p =
     (case m_outgoingMessageQueue (tasks p t) of
        [] \<Rightarrow> p
      | msg # rest \<Rightarrow>
          (let p1 = set_task t ((tasks p t)\<lparr>m_outgoingMessageQueue := rest\<rparr>) p;
               callbackContext = \<lparr>nextMessage = msg, websocketTask = t\<rparr>;
               rawContext = length (shared_ptr_cache p1);
               p2 = p1\<lparr>shared_ptr_cache := shared_ptr_cache p1 @ [callbackContext]\<rparr>;
               hr = BeginAsync pf (m_asyncBlock (messages p2 msg))
           in if hr = S_OK
              then (if ScheduleAsync pf (m_asyncBlock (messages p2 msg)) = S_OK
                    then p2\<lparr>async_queue :=
                              async_queue p2 @ [(m_asyncBlock (messages p2 msg), rawContext)]\<rparr>
                    else p2)
              else p2))"

text \<open>
  \<open>Internal_HCWebSocketSendMessageAsync\<close>. The message pointer is \<open>None\<close> when null.
  The message record made by \<open>make_shared\<close> is released again when the function returns
  at the length check. The result is \<open>None\<close> when the session has no implementation
  object, which the source dereferences unchecked once the message has passed the checks.
\<close>

definition Internal_HCWebSocketSendMessageAsync ::
  "platform \<Rightarrow> hc_websocket_handle_t \<Rightarrow> string option \<Rightarrow> AsyncBlock \<Rightarrow> process
     \<Rightarrow> (HRESULT \<times> process) option" where
  "Internal_HCWebSocketSendMessageAsync pf w message asyncBlock p =
     (case message of
        None \<Rightarrow> Some (E_INVALIDARG, p)
      | Some text \<Rightarrow>
          (case singleton p of
             None \<Rightarrow> Some (E_HC_NOT_INITIALISED, p)
           | Some httpSingleton \<Rightarrow>
               (let websocketTask = impl (websockets p w);
                    lastId = m_lastId httpSingleton + 1;
                    p1 = p\<lparr>singleton := Some (httpSingleton\<lparr>m_lastId := lastId\<rparr>)\<rparr>;
                    msg = new_websocket_outgoing_message
                            \<lparr>m_message := text, m_asyncBlock := asyncBlock, m_id := lastId\<rparr>
                in if length (m_message msg) = 0
                   then Some (E_INVALIDARG, p1)
                   else (case websocketTask of
                           None \<Rightarrow> None
                         | Some t \<Rightarrow>
                             (let a = next_message p1;
                                  p2 = p1\<lparr>messages := (messages p1)(a := msg), next_message := a + 1\<rparr>;
                                  sendInProgress = (length (m_outgoingMessageQueue (tasks p2 t)) > 0);
                                  p3 = set_task t
                                         ((tasks p2 t)\<lparr>m_outgoingMessageQueue :=
                                            m_outgoingMessageQueue (tasks p2 t) @ [a]\<rparr>) p2
                              in if \<not> sendInProgress
                                 then Some (S_OK, MessageWebSocketSendMessage pf t p3)
                                 else Some (S_OK, p3))))))"

text \<open>
  \<open>WebsockSendMessageDoWork\<close>, the work the scheduler runs for a scheduled send.
  \<open>store_throws\<close> says whether \<open>StoreAsync\<close> throws; setting the message type and
  writing the bytes are taken to return. When the operation is obtained, it is in flight
  with its \<open>Completed\<close> handler and the work returns \<open>E_PENDING\<close>. The result is \<open>None\<close>
  when the implementation object has no transport object.
\<close>

definition WebsockSendMessageDoWork ::
  "platform \<Rightarrow> exn option \<Rightarrow> AsyncBlock \<Rightarrow> nat option \<Rightarrow> process \<Rightarrow> (HRESULT \<times> process) option" where
  "WebsockSendMessageDoWork pf store_throws asyncBlock executionRoutineContext p =
     (case fetch (shared_ptr_cache p) executionRoutineContext of
        None \<Rightarrow> Some (E_INVALIDARG, p)
      | Some sendMsgContext \<Rightarrow>
          (let t = websocketTask sendMsgContext;
               msg = nextMessage sendMsgContext
           in case m_messageWebSocket (tasks p t) of
                None \<Rightarrow> None
              | Some sock \<Rightarrow>
                  (let writer = m_messageDataWriter (tasks p t);
                       written = writer\<lparr>unstored := unstored writer @ m_message (messages p msg)\<rparr>;
                       task1 = (tasks p t)\<lparr>m_messageWebSocket := Some (sock\<lparr>MessageType := Utf8\<rparr>),
                                           m_messageDataWriter := written\<rparr>
                   in case store_throws of
                        Some (hresult_error c) \<Rightarrow> Some (c, set_task t task1 p)
                      | Some other_exception \<Rightarrow>
                          Some (CATCH_RETURN pf other_exception, set_task t task1 p)
                      | None \<Rightarrow>
                          (let op = \<lparr>op_websocketTask = t, op_msg = msg,
                                     op_asyncBlock = asyncBlock, op_bytes = unstored written\<rparr>;
                               task2 = task1\<lparr>m_messageDataWriter := written\<lparr>unstored := []\<rparr>\<rparr>;
                               p1 = set_task t task2 p
                           in Some (E_PENDING,
                                    p1\<lparr>messages :=
                                         (messages p1)(msg := (messages p1 msg)\<lparr>m_storeAsyncOp := True\<rparr>),
                                       store_ops := store_ops p1 @ [op]\<rparr>)))))"

text \<open>
  The \<open>Completed\<close> handler of a store operation. \<open>GetResults\<close> is what
  \<open>asyncOp.GetResults()\<close> does: return the number of bytes stored, or throw. First the
  body of the \<open>try\<close> block (an exception leaves it with the status already recorded),
  then the two \<open>catch\<close> clauses, then the handler: it completes the async block with
  the result recorded on the message and calls \<open>MessageWebSocketSendMessage\<close> again.
\<close>

definition store_completed_try ::
  "exn + 32 word \<Rightarrow> AsyncStatus \<Rightarrow> websocket_outgoing_message
     \<Rightarrow> exn \<times> websocket_outgoing_message + websocket_outgoing_message" where
  "store_completed_try GetResults status msg =
     (let msg1 = msg\<lparr>m_storeAsyncOpStatus := status\<rparr>
      in case GetResults of
           Inl e \<Rightarrow> Inl (e, msg1)
         | Inr result \<Rightarrow> Inr (msg1\<lparr>m_storeAsyncResult := result\<rparr>))"

definition store_completed_catch ::
  "exn + 32 word \<Rightarrow> AsyncStatus \<Rightarrow> websocket_outgoing_message \<Rightarrow> websocket_outgoing_message" where
  "store_completed_catch GetResults status msg =
     (case store_completed_try GetResults status msg of
        Inr msg2 \<Rightarrow> msg2
      | Inl (hresult_error c, msg1) \<Rightarrow> msg1\<lparr>m_storeAsyncResult := c\<rparr>
      | Inl (other_exception, msg1) \<Rightarrow> msg1\<lparr>m_storeAsyncResult := E_FAIL\<rparr>)"

definition StoreAsync_Completed ::
  "platform \<Rightarrow> exn + 32 word \<Rightarrow> AsyncStatus \<Rightarrow> store_operation \<Rightarrow> process \<Rightarrow> process" where
  "StoreAsync_Completed pf GetResults status op p =
     (let msg = op_msg op;
          p1 = p\<lparr>messages := (messages p)(msg := store_completed_catch GetResults status (messages p msg)),
                 store_ops := remove1 op (store_ops p)\<rparr>;
          p2 = p1\<lparr>completions :=
                    completions p1 @ [(op_asyncBlock op, m_storeAsyncResult (messages p1 msg))]\<rparr>
      in MessageWebSocketSendMessage pf (op_websocketTask op) p2)"

definition WebsockSendMessageGetResult ::
  "platform \<Rightarrow> AsyncProviderData \<Rightarrow> process \<Rightarrow> HRESULT \<times> WebSocketCompletionResult option" where
  "WebsockSendMessageGetResult pf data p =
     (if data_context data = None \<or> data_bufferSize data < sizeof_WebSocketCompletionResult pf
      then (E_INVALIDARG, None)
      else (case fetch (shared_ptr_cache p) (data_context data) of
              None \<Rightarrow> (E_INVALIDARG, None)
            | Some sendMsgContext \<Rightarrow>
                (let msg = messages p (nextMessage sendMsgContext)
                 in case m_websocketHandle (tasks p (websocketTask sendMsgContext)) of
                      None \<Rightarrow> (E_INVALIDARG, None)
                    | Some h \<Rightarrow>
                        (S_OK,
                         Some \<lparr>websocket = Some h,
                               errorCode = (if FAILED (m_storeAsyncResult msg) then E_FAIL else S_OK),
                               platformErrorCode = m_storeAsyncResult msg\<rparr>))))"

section \<open>Disconnect\<close>

text \<open>
  \<open>Internal_HCWebSocketDisconnect\<close>. The session handle is \<open>None\<close> when null;
  \<open>Close_throws\<close> says whether the transport's \<open>Close\<close> throws, and an exception leaves
  the function, which has no handler. The status is cast to \<open>unsigned short\<close>.
\<close>

definition Internal_HCWebSocketDisconnect ::
  "exn option \<Rightarrow> hc_websocket_handle_t option \<Rightarrow> 32 word \<Rightarrow> process \<Rightarrow> (exn + HRESULT) \<times> process" where
  "Internal_HCWebSocketDisconnect Close_throws w closeStatus p =
     (case w of
        None \<Rightarrow> (Inr E_INVALIDARG, p)
      | Some h \<Rightarrow>
          (case impl (websockets p h) of
             None \<Rightarrow> (Inr E_UNEXPECTED, p)
           | Some t \<Rightarrow>
               (case m_messageWebSocket (tasks p t) of
                  None \<Rightarrow> (Inr E_UNEXPECTED, p)
                | Some sock \<Rightarrow>
                    (case Close_throws of
                       Some e \<Rightarrow> (Inl e, p)
                     | None \<Rightarrow>
                         (Inr S_OK,
                          set_task t
                            ((tasks p t)\<lparr>m_messageWebSocket :=
                               Some (sock\<lparr>Close := Close sock @ [(ucast closeStatus, [])]\<rparr>)\<rparr>) p)))))"


section \<open>Runs\<close>

text \<open>
  The events that drive a session: the scheduler runs the connect work of a session (the
  new transport's output stream is named after the session, and \<open>ConnectAsync\<close>
  returns); the transport fires the \<open>Completed\<close> handler of a connect operation that
  was started (acquiring the writer returns); a producer calls SendMessage; the scheduler
  runs the send work queued at some position of its queue (\<open>StoreAsync\<close> returns its
  operation); the transport fires the \<open>Completed\<close> handler of the store operation at
  some position among those in flight. The scheduler and the transport choose the
  positions. A step is \<open>None\<close> when the position or the operation does not exist, or
  the call dereferences a null pointer.
\<close>

datatype event =
    Connect hc_websocket_handle_t AsyncBlock
  | Opened nat AsyncBlock AsyncStatus
  | Send hc_websocket_handle_t "string option" AsyncBlock
  | Work nat
  | Stored nat "exn + 32 word" AsyncStatus

fun step :: "platform \<Rightarrow> process \<Rightarrow> event \<Rightarrow> process option" where
  "step pf p (Connect w asyncBlock) =
     map_option snd (WebsocketConnectDoWork pf w None asyncBlock w p)"
| "step pf p (Opened t asyncBlock status) =
     (if m_connectAsyncOp (tasks p t)
      then ConnectAsync_Completed None status asyncBlock t p
      else None)"
| "step pf p (Send w message asyncBlock) =
     map_option snd (Internal_HCWebSocketSendMessageAsync pf w message asyncBlock p)"
| "step pf p (Work k) =
     (if k < length (async_queue p)
      then map_option snd
             (WebsockSendMessageDoWork pf None (fst (async_queue p ! k)) (Some (snd (async_queue p ! k)))
                (p\<lparr>async_queue := take k (async_queue p) @ drop (Suc k) (async_queue p)\<rparr>))
      else None)"
| "step pf p (Stored k GetResults status) =
     (if k < length (store_ops p)
      then Some (StoreAsync_Completed pf GetResults status (store_ops p ! k) p)
      else None)"

fun run :: "platform \<Rightarrow> process \<Rightarrow> event list \<Rightarrow> process option" where
  "run pf p [] = Some p"
| "run pf p (e # es) = (case step pf p e of None \<Rightarrow> None | Some p' \<Rightarrow> run pf p' es)"

text \<open>
  What is observed of a session's pipeline, by payload: the messages in the outgoing queue,
  the messages popped and scheduled whose work has not run, the messages handed to the
  transport whose store operation has not completed, and the async blocks completed so
  far with their results, in order.
\<close>

record pipeline =
  queued :: "string list"
  scheduled :: "string list"
  awaiting_store :: "string list"
  completed :: "(AsyncBlock \<times> HRESULT) list"

definition observe :: "nat \<Rightarrow> process \<Rightarrow> pipeline" where
  "observe t p =
     \<lparr>queued = map (\<lambda>a. m_message (messages p a)) (m_outgoingMessageQueue (tasks p t)),
      scheduled =
        concat
          (map (\<lambda>(b, raw).
                  case fetch (shared_ptr_cache p) (Some raw) of
                    None \<Rightarrow> []
                  | Some c \<Rightarrow>
                      if websocketTask c = t then [m_message (messages p (nextMessage c))] else [])
             (async_queue p)),
      awaiting_store =
        map (\<lambda>op. m_message (messages p (op_msg op)))
          (filter (\<lambda>op. op_websocketTask op = t) (store_ops p)),
      completed = completions p\<rparr>"

text \<open>
  The completions delivered so far, in order, each as the payload and the identifier of
  the message that was sent with the completed async block.
\<close>

definition completion_order :: "process \<Rightarrow> (string \<times> 64 word) list" where
  "completion_order p =
     concat
       (map (\<lambda>(b, hr).
               map (\<lambda>m. (m_message m, m_id m))
                 (filter (\<lambda>m. m_asyncBlock m = b) (map (messages p) [0..<next_message p])))
          (completions p))"

section \<open>A platform on which every call succeeds, and a process with sessions\<close>

definition ok_platform :: platform where
  "ok_platform =
     \<lparr>utf16_from_utf8 = widen_ascii, to_hstring = widen_ascii,
      CATCH_RETURN = (\<lambda>e. E_FAIL),
      BeginAsync = (\<lambda>b. S_OK), ScheduleAsync = (\<lambda>b. S_OK),
      SetRequestHeader_throws = (\<lambda>n v. None), Append_throws = (\<lambda>v. None),
      Uri_throws = (\<lambda>u. None),
      sizeof_WebSocketCompletionResult = 16\<rparr>"

text \<open>
  The same platform, except that its transport throws when the reserved sub-protocol
  header is set as a request header, in either of two spellings.
\<close>

definition reserving_platform :: platform where
  "reserving_platform =
     ok_platform
       \<lparr>SetRequestHeader_throws :=
          (\<lambda>n v. if n = widen_ascii ''Sec-WebSocket-Protocol''
                       \<or> n = widen_ascii ''sec-websocket-protocol''
                    then Some (hresult_error E_INVALIDARG) else None)\<rparr>"

text \<open>
  The implementation object as its constructor leaves it (the members default-constructed,
  the connect result \<open>S_OK\<close>), with the handle \<open>Internal_HCWebSocketConnectAsync\<close> stores
  in it.
\<close>

definition new_winrt_websocket_impl :: "hc_websocket_handle_t \<Rightarrow> winrt_websocket_impl" where
  "new_winrt_websocket_impl h =
     \<lparr>m_messageWebSocket = Some (new_MessageWebSocket h),
      m_messageDataWriter = new_DataWriter None,
      m_connectAsyncOpResult = S_OK,
      m_context = None,
      m_connectAsyncOp = False,
      m_outgoingMessageQueue = [],
      m_websocketHandle = Some h\<rparr>"

text \<open>
  In \<open>example_process\<close> every handle \<open>h\<close> is a session on which Connect has been
  called and whose connect work has not run yet: its implementation object is at address
  \<open>h\<close>, its address and sub-protocol field are those of the spec's connect scenario.
  The singleton is initialised, with no identifier given out yet, and one subscriber
  function is registered for each event.
\<close>

definition example_session :: "(string \<times> string) list \<Rightarrow> hc_websocket_handle_t \<Rightarrow> hc_websocket" where
  "example_session headers h =
     \<lparr>websocket_id = of_nat h, uri = ''wss://host/path'', subProtocol = ''chat, superchat'',
      connectHeaders = headers, impl = Some h\<rparr>"

definition example_process :: process where
  "example_process =
     \<lparr>singleton = Some \<lparr>m_lastId = 0\<rparr>,
      websockets = example_session [],
      tasks = new_winrt_websocket_impl,
      messages = (\<lambda>a. new_websocket_outgoing_message),
      next_message = 0,
      shared_ptr_cache = [],
      async_queue = [],
      store_ops = [],
      completions = [],
      messageFunc = Some 0,
      closeFunc = Some 1,
      message_calls = [],
      close_calls = []\<rparr>"

text \<open>
  Variants of it: the library not initialised; the sessions never connected (no
  implementation object); the implementation objects without a transport object; and a
  process in which the send whose callback context is at index 0 has completed with the
  platform code \<open>0x80072EFD\<close>.
\<close>

definition uninitialised_process :: process where
  "uninitialised_process = example_process\<lparr>singleton := None\<rparr>"

definition unconnected_process :: process where
  "unconnected_process =
     example_process\<lparr>websockets := (\<lambda>h. (example_session [] h)\<lparr>impl := None\<rparr>)\<rparr>"

definition no_transport_process :: process where
  "no_transport_process =
     example_process\<lparr>tasks := (\<lambda>t. (new_winrt_websocket_impl t)\<lparr>m_messageWebSocket := None\<rparr>)\<rparr>"

definition failed_send_process :: process where
  "failed_send_process =
     example_process
       \<lparr>messages := (\<lambda>a. new_websocket_outgoing_message
                            \<lparr>m_message := ''A'', m_asyncBlock := 10,
                             m_storeAsyncOpStatus := Error, m_storeAsyncResult := 0x80072EFD, m_id := 1\<rparr>),
        next_message := 1,
        shared_ptr_cache := [\<lparr>nextMessage = 0, websocketTask = 1\<rparr>],
        completions := [(10, 0x80072EFD)]\<rparr>"

text \<open>
  What is observed of the transport of the implementation object \<open>t\<close>: the request
  headers set and the protocols registered once the connect work has returned, and the
  close requests made.
\<close>

definition applied_headers ::
  "nat \<Rightarrow> (HRESULT \<times> process) option \<Rightarrow> (wstring \<times> wstring) list option" where
  "applied_headers t r =
     (case r of
        None \<Rightarrow> None
      | Some (hr, p) \<Rightarrow> map_option RequestHeaders (m_messageWebSocket (tasks p t)))"


definition close_requests :: "nat \<Rightarrow> process \<Rightarrow> (16 word \<times> wstring) list" where
  "close_requests t p =
     (case m_messageWebSocket (tasks p t) of
        None \<Rightarrow> []
      | Some sock \<Rightarrow> Close sock)"

text \<open>The spec's generic status: failure if the platform code indicates failure.\<close>

definition generic_status :: "32 word \<Rightarrow> HRESULT" where
  "generic_status platformCode = (if FAILED platformCode then E_FAIL else S_OK)"


section \<open>Facts used below\<close>

lemma hresult_facts:
  "E_HC_NOT_INITIALISED \<noteq> E_INVALIDARG" "E_UNEXPECTED \<noteq> E_INVALIDARG" "S_OK \<noteq> E_FAIL"
  "E_FAIL \<noteq> S_OK"
  "FAILED E_INVALIDARG" "FAILED E_HC_NOT_INITIALISED" "FAILED E_FAIL" "FAILED E_UNEXPECTED"
  "\<not> FAILED S_OK"
  by (simp_all add: E_HC_NOT_INITIALISED_def E_INVALIDARG_def E_UNEXPECTED_def S_OK_def
      E_FAIL_def FAILED_def)






lemma header_pointers:
  "map (HCWebSocketGetHeaderAtIndex ws) [0..<HCWebSocketGetNumHeaders ws]
     = map (\<lambda>(n, v). (Some n, Some v)) (connectHeaders ws)"
  by (rule nth_equalityI)
    (simp_all add: HCWebSocketGetHeaderAtIndex_def HCWebSocketGetNumHeaders_def case_prod_unfold)


lemma set_request_headers_applied:
  assumes "\<forall>(n, v) \<in> set hs.
             \<not> str_icmp n protocolHeader \<longrightarrow>
             SetRequestHeader_throws pf (to_hstring pf n) (to_hstring pf v) = None"
  shows "set_request_headers pf (map (\<lambda>(n, v). (Some n, Some v)) hs) sock =
           (None,
            sock\<lparr>RequestHeaders :=
                   RequestHeaders sock @
                   map (\<lambda>(n, v). (to_hstring pf n, to_hstring pf v))
                     (filter (\<lambda>(n, v). \<not> str_icmp n protocolHeader) hs)\<rparr>)"
  using assms
proof (induction hs arbitrary: sock)
  case Nil
  show ?case by simp
next
  case (Cons h hs)
  obtain n v where h: "h = (n, v)" by (cases h)
  have rest: "\<forall>(n, v) \<in> set hs.
             \<not> str_icmp n protocolHeader \<longrightarrow>
             SetRequestHeader_throws pf (to_hstring pf n) (to_hstring pf v) = None"
    using Cons.prems by simp
  have this_one: "\<not> str_icmp n protocolHeader \<Longrightarrow>
      SetRequestHeader_throws pf (to_hstring pf n) (to_hstring pf v) = None"
    using Cons.prems by (simp add: h)
  show ?case
    by (simp add: h Cons.IH [OF rest] this_one)
qed

lemma append_protocols_headers:
  "RequestHeaders (snd (append_protocols pf vs sock)) = RequestHeaders sock"
  by (induction vs arbitrary: sock) (simp_all split: option.splits)





section \<open>The outgoing pipeline\<close>

text \<open>
  C1 (single flight; three sends back to back give one submission and two queued
  records). The code does otherwise. \<open>MessageWebSocketSendMessage\<close> pops the message it
  dispatches, so the queue is empty again while that message is in flight, and the next
  SendMessage finds \<open>sendInProgress\<close> false. On a session that has been opened, with the
  sends "A", "B", "C" issued before any of them completes, nothing stays queued and all
  three are popped and scheduled; once the scheduler has run the three work items, three
  store operations await completion at the same time.
\<close>

theorem burst_send_all_dispatched:
  "map_option (observe 1)
     (run ok_platform example_process
        [Connect 1 9, Opened 1 9 Completed,
         Send 1 (Some ''A'') 10, Send 1 (Some ''B'') 11, Send 1 (Some ''C'') 12])
   = Some \<lparr>queued = [], scheduled = [''A'', ''B'', ''C''], awaiting_store = [],
            completed = [(9, S_OK)]\<rparr>
   \<and>
   map_option (observe 1)
     (run ok_platform example_process
        [Connect 1 9, Opened 1 9 Completed,
         Send 1 (Some ''A'') 10, Send 1 (Some ''B'') 11, Send 1 (Some ''C'') 12,
         Work 0, Work 0, Work 0])
   = Some \<lparr>queued = [], scheduled = [], awaiting_store = [''A'', ''B'', ''C''],
            completed = [(9, S_OK)]\<rparr>"
  by code_simp

text \<open>
  C2 (completions are delivered in the order of the sends). The code does otherwise, by
  the same defect: after the sends "A" (identifier 1) and "B" (identifier 2), "B" has been
  popped although "A" has not completed, and when the work and the store operation of "B"
  finish first, the completion of "B" is delivered before that of "A".
\<close>

theorem completions_out_of_order:
  "map_option (observe 1)
     (run ok_platform example_process
        [Connect 1 9, Opened 1 9 Completed, Send 1 (Some ''A'') 10, Send 1 (Some ''B'') 11])
   = Some \<lparr>queued = [], scheduled = [''A'', ''B''], awaiting_store = [],
            completed = [(9, S_OK)]\<rparr>
   \<and>
   map_option completion_order
     (run ok_platform example_process
        [Connect 1 9, Opened 1 9 Completed, Send 1 (Some ''A'') 10, Send 1 (Some ''B'') 11,
         Work 1, Stored 0 (Inr 1) Completed, Work 0, Stored 0 (Inr 1) Completed])
   = Some [(''B'', 2), (''A'', 1)]"
  by code_simp

section \<open>Rejected sends\<close>

text \<open>
  C3, as amended (null or zero-length guard). A SendMessage call whose message pointer is
  null returns invalid-argument; a call whose payload is empty returns invalid-argument
  when the library singleton is initialised and the not-initialised error when it is
  not, because the singleton is checked before the length. In each of these cases the
  call returns synchronously with a failure code, and the outgoing queues, the message
  store, the callback contexts, the scheduled work, the store operations in flight and
  the completions are unchanged: nothing is enqueued and nothing is submitted.
\<close>

theorem send_null_or_empty_rejected:
  assumes "message = None \<or> message = Some []"
  shows "\<exists>hr p'. Internal_HCWebSocketSendMessageAsync pf w message asyncBlock p = Some (hr, p')
           \<and> hr = (if message = Some [] \<and> singleton p = None
                   then E_HC_NOT_INITIALISED else E_INVALIDARG)
           \<and> FAILED hr
           \<and> tasks p' = tasks p \<and> messages p' = messages p \<and> next_message p' = next_message p
           \<and> shared_ptr_cache p' = shared_ptr_cache p \<and> async_queue p' = async_queue p
           \<and> store_ops p' = store_ops p \<and> completions p' = completions p"
  using assms
  by (auto simp: Internal_HCWebSocketSendMessageAsync_def Let_def hresult_facts
      new_websocket_outgoing_message_def split: option.splits)

theorem send_null_or_empty_rejected_witness:
  "(\<exists>hr p'. Internal_HCWebSocketSendMessageAsync ok_platform 1 None 10 example_process = Some (hr, p')
      \<and> hr = E_INVALIDARG
      \<and> tasks p' = tasks example_process \<and> async_queue p' = [] \<and> store_ops p' = [])
   \<and> (\<exists>hr p'. Internal_HCWebSocketSendMessageAsync ok_platform 1 (Some []) 10 example_process
                 = Some (hr, p')
      \<and> hr = E_INVALIDARG
      \<and> tasks p' = tasks example_process \<and> async_queue p' = [] \<and> store_ops p' = [])
   \<and> (\<exists>hr p'. Internal_HCWebSocketSendMessageAsync ok_platform 1 (Some []) 10 uninitialised_process
                 = Some (hr, p')
      \<and> hr = E_HC_NOT_INITIALISED
      \<and> tasks p' = tasks uninitialised_process \<and> async_queue p' = [] \<and> store_ops p' = [])"
  using send_null_or_empty_rejected [of None ok_platform 1 10 example_process]
    send_null_or_empty_rejected [of "Some []" ok_platform 1 10 example_process]
    send_null_or_empty_rejected [of "Some []" ok_platform 1 10 uninitialised_process]
  by (auto simp: example_process_def uninitialised_process_def)

text \<open>
  The claim as stated fails: with an empty payload on a library that is not initialised,
  the call returns the not-initialised error, which is not invalid-argument.
\<close>

theorem empty_send_uninitialised_not_invalid_argument:
  "map_option fst
     (Internal_HCWebSocketSendMessageAsync ok_platform 1 (Some []) 10 uninitialised_process)
   = Some E_HC_NOT_INITIALISED
   \<and> E_HC_NOT_INITIALISED \<noteq> E_INVALIDARG"
  by (simp add: Internal_HCWebSocketSendMessageAsync_def uninitialised_process_def
      example_process_def hresult_facts)


section \<open>Disconnect\<close>

text \<open>
  C4, as amended (Disconnect error classification). Disconnect returns invalid-argument
  only when the session handle itself is null. On a session with no active transport (no
  implementation object, or an implementation object without a transport object) it
  returns the unexpected-error code and changes nothing. On a session that has a
  transport object, when the transport's close returns, Disconnect has made one close
  request with the given status code (cast to 16 bits, which keeps every status below
  65536) and an empty reason, and returns success.
\<close>

theorem disconnect_classification:
  "(w = None \<longrightarrow>
      Internal_HCWebSocketDisconnect Close_throws w closeStatus p = (Inr E_INVALIDARG, p))
   \<and> (w = Some h \<and> impl (websockets p h) = None \<longrightarrow>
        Internal_HCWebSocketDisconnect Close_throws w closeStatus p = (Inr E_UNEXPECTED, p))
   \<and> (w = Some h \<and> impl (websockets p h) = Some t \<and> m_messageWebSocket (tasks p t) = None \<longrightarrow>
        Internal_HCWebSocketDisconnect Close_throws w closeStatus p = (Inr E_UNEXPECTED, p))
   \<and> (w = Some h \<and> impl (websockets p h) = Some t \<and> m_messageWebSocket (tasks p t) = Some sock
        \<and> Close_throws = None \<longrightarrow>
        fst (Internal_HCWebSocketDisconnect Close_throws w closeStatus p) = Inr S_OK
        \<and> close_requests t (snd (Internal_HCWebSocketDisconnect Close_throws w closeStatus p))
            = close_requests t p @ [(ucast closeStatus, [])]
        \<and> (closeStatus < 65536 \<longrightarrow> unat (ucast closeStatus :: 16 word) = unat closeStatus))"
  apply (intro conjI impI)
       apply (simp_all add: Internal_HCWebSocketDisconnect_def close_requests_def set_task_def)
  apply (simp add: unsigned_ucast_eq word_less_nat_alt take_bit_nat_eq_self_iff)
  done

theorem disconnect_classification_witness:
  "Internal_HCWebSocketDisconnect None None 1000 example_process = (Inr E_INVALIDARG, example_process)
   \<and> Internal_HCWebSocketDisconnect None (Some 1) 1000 unconnected_process
       = (Inr E_UNEXPECTED, unconnected_process)
   \<and> Internal_HCWebSocketDisconnect None (Some 1) 1000 no_transport_process
       = (Inr E_UNEXPECTED, no_transport_process)
   \<and> fst (Internal_HCWebSocketDisconnect None (Some 1) 1000 example_process) = Inr S_OK
   \<and> close_requests 1 (snd (Internal_HCWebSocketDisconnect None (Some 1) 1000 example_process))
       = [(1000, [])]
   \<and> unat (ucast (1000 :: 32 word) :: 16 word) = 1000"
  using disconnect_classification [where w = None and h = 1 and t = 1 and p = example_process
        and sock = "new_MessageWebSocket 1" and Close_throws = None and closeStatus = 1000]
    disconnect_classification [where w = "Some 1" and h = 1 and t = 1 and p = unconnected_process
        and sock = "new_MessageWebSocket 1" and Close_throws = None and closeStatus = 1000]
    disconnect_classification [where w = "Some 1" and h = 1 and t = 1 and p = no_transport_process
        and sock = "new_MessageWebSocket 1" and Close_throws = None and closeStatus = 1000]
    disconnect_classification [where w = "Some 1" and h = 1 and t = 1 and p = example_process
        and sock = "new_MessageWebSocket 1" and Close_throws = None and closeStatus = 1000]
  by (simp add: example_process_def unconnected_process_def no_transport_process_def
      example_session_def new_winrt_websocket_impl_def close_requests_def new_MessageWebSocket_def)

text \<open>
  The claim as stated fails: on a session that was never connected, Disconnect returns the
  unexpected-error code, which is not invalid-argument.
\<close>

theorem disconnect_without_transport_unexpected:
  "fst (Internal_HCWebSocketDisconnect None (Some 1) 1000 unconnected_process) = Inr E_UNEXPECTED
   \<and> E_UNEXPECTED \<noteq> E_INVALIDARG"
  by (simp add: Internal_HCWebSocketDisconnect_def unconnected_process_def hresult_facts)

section \<open>Connect\<close>



text \<open>
  C6 (reserved-header filtering). During the connect work, on a session that has an
  implementation object, every header of the session's header list is set on the
  transport with its name and value as given (converted to wide strings), except the
  headers whose name is the reserved sub-protocol header "Sec-WebSocket-Protocol"; those
  are filtered out and never passed to the transport. The source recognises the reserved
  name with \<open>str_icmp\<close>, that is in any letter case, as header names are compared. The
  transport is taken to accept the headers that are passed to it; it may reject the
  reserved one.
\<close>

theorem headers_applied_except_protocol_header:
  assumes "impl (websockets p w) = Some t"
    and "\<forall>(n, v) \<in> set (connectHeaders (websockets p w)).
           \<not> str_icmp n protocolHeader \<longrightarrow>
           SetRequestHeader_throws pf (to_hstring pf n) (to_hstring pf v) = None"
  shows "applied_headers t (WebsocketConnectDoWork pf stream connect_throws asyncBlock w p)
         = Some (map (\<lambda>(n, v). (to_hstring pf n, to_hstring pf v))
                   (filter (\<lambda>(n, v). \<not> str_icmp n protocolHeader)
                      (connectHeaders (websockets p w))))"
proof -
  let ?ws = "websockets p w"
  let ?hs = "map (\<lambda>(n, v). (to_hstring pf n, to_hstring pf v))
               (filter (\<lambda>(n, v). \<not> str_icmp n protocolHeader) (connectHeaders ?ws))"
  let ?sock1 = "(new_MessageWebSocket stream)\<lparr>RequestHeaders := ?hs\<rparr>"
  let ?protocols = "parse_subprotocols (utf16_from_utf8 pf) (subProtocol ?ws)"
  have 1: "set_request_headers pf (map (HCWebSocketGetHeaderAtIndex ?ws) [0..<HCWebSocketGetNumHeaders ?ws])
             (new_MessageWebSocket stream) = (None, ?sock1)"
    unfolding header_pointers
    by (simp add: set_request_headers_applied [OF assms(2)] new_MessageWebSocket_def)
  obtain e2 sock2 where 2: "append_protocols pf ?protocols ?sock1 = (e2, sock2)"
    by (cases "append_protocols pf ?protocols ?sock1")
  have 3: "RequestHeaders sock2 = ?hs"
    using append_protocols_headers [of pf ?protocols ?sock1] by (simp add: 2)
  show ?thesis
    unfolding WebsocketConnectDoWork_def applied_headers_def
    by (simp add: assms(1) Let_def 1 2 3 set_task_def split: option.splits exn.splits)
qed

theorem headers_applied_except_protocol_header_witness:
  "applied_headers 1
     (WebsocketConnectDoWork reserving_platform 1 None 10 1
        (example_process\<lparr>websockets :=
           example_session [(''X-Custom'', ''1''), (''Sec-WebSocket-Protocol'', ''chat''),
                            (''sec-websocket-protocol'', ''chat''), (''Authorization'', ''t'')]\<rparr>))
   = Some [(widen_ascii ''X-Custom'', widen_ascii ''1''),
           (widen_ascii ''Authorization'', widen_ascii ''t'')]"
proof -
  let ?p = "example_process\<lparr>websockets :=
           example_session [(''X-Custom'', ''1''), (''Sec-WebSocket-Protocol'', ''chat''),
                            (''sec-websocket-protocol'', ''chat''), (''Authorization'', ''t'')]\<rparr>"
  have session: "impl (websockets ?p 1) = Some 1"
    by (simp add: example_session_def)
  have accepted: "\<forall>(n, v) \<in> set (connectHeaders (websockets ?p 1)).
           \<not> str_icmp n protocolHeader \<longrightarrow>
           SetRequestHeader_throws reserving_platform
             (to_hstring reserving_platform n) (to_hstring reserving_platform v) = None"
    by code_simp
  have "applied_headers 1 (WebsocketConnectDoWork reserving_platform 1 None 10 1 ?p)
        = Some (map (\<lambda>(n, v). (to_hstring reserving_platform n, to_hstring reserving_platform v))
                  (filter (\<lambda>(n, v). \<not> str_icmp n protocolHeader)
                     (connectHeaders (websockets ?p 1))))"
    by (rule headers_applied_except_protocol_header [OF session accepted])
  also have "\<dots> = Some [(widen_ascii ''X-Custom'', widen_ascii ''1''),
                        (widen_ascii ''Authorization'', widen_ascii ''t'')]"
    by code_simp
  finally show ?thesis .
qed

text \<open>
  C8 (connect completion handling). When the open operation completes on an
  implementation object that has its transport object, the handler returns, having
  completed the async block with \<open>S_OK\<close>; no exception leaves it. If the transport
  reported an error, the stored outcome is a failure. If acquiring the writer returned, the
  stored outcome is \<open>E_FAIL\<close> on an error status, and otherwise \<open>S_OK\<close> with the writer
  bound to the transport's output stream. If acquiring the writer threw, the stored
  outcome is a failure, the exception's own code or \<open>E_FAIL\<close> for any other exception,
  and the writer is as before. The codes carried by the platform's exceptions are taken
  to be failure codes.
\<close>

theorem connect_completion_outcome:
  assumes "m_messageWebSocket (tasks p t) = Some sock"
    and "\<forall>c. writer_throws = Some (hresult_error c) \<longrightarrow> FAILED c"
  shows "\<exists>p'. ConnectAsync_Completed writer_throws status asyncBlock t p = Some p'
           \<and> completions p' = completions p @ [(asyncBlock, S_OK)]
           \<and> (status = Error \<longrightarrow> FAILED (m_connectAsyncOpResult (tasks p' t)))
           \<and> (writer_throws = None \<and> status = Error \<longrightarrow>
                m_connectAsyncOpResult (tasks p' t) = E_FAIL)
           \<and> (writer_throws = None \<and> status \<noteq> Error \<longrightarrow>
                m_connectAsyncOpResult (tasks p' t) = S_OK
                \<and> m_messageDataWriter (tasks p' t) = new_DataWriter (Some (OutputStream sock)))
           \<and> (writer_throws \<noteq> None \<longrightarrow>
                FAILED (m_connectAsyncOpResult (tasks p' t))
                \<and> m_messageDataWriter (tasks p' t) = m_messageDataWriter (tasks p t))
           \<and> (\<forall>c. writer_throws = Some (hresult_error c) \<longrightarrow>
                m_connectAsyncOpResult (tasks p' t) = c)
           \<and> (writer_throws = Some other_exception \<longrightarrow>
                m_connectAsyncOpResult (tasks p' t) = E_FAIL)"
proof (cases writer_throws)
  case None
  then show ?thesis
    using assms
    by (simp add: ConnectAsync_Completed_def connect_completed_try_def set_task_def Let_def
        hresult_facts)
next
  case (Some e)
  then show ?thesis
    using assms
    by (cases e)
      (simp_all add: ConnectAsync_Completed_def connect_completed_try_def set_task_def
        hresult_facts)
qed

theorem connect_completion_outcome_witness:
  "(\<exists>p'. ConnectAsync_Completed None Completed 10 1 example_process = Some p'
      \<and> completions p' = [(10, S_OK)]
      \<and> m_connectAsyncOpResult (tasks p' 1) = S_OK
      \<and> m_messageDataWriter (tasks p' 1) = new_DataWriter (Some 1))
   \<and> (\<exists>p'. ConnectAsync_Completed None Error 10 1 example_process = Some p'
      \<and> completions p' = [(10, S_OK)]
      \<and> m_connectAsyncOpResult (tasks p' 1) = E_FAIL)
   \<and> (\<exists>p'. ConnectAsync_Completed (Some (hresult_error 0x80072EE7)) Error 10 1 example_process
             = Some p'
      \<and> completions p' = [(10, S_OK)]
      \<and> m_connectAsyncOpResult (tasks p' 1) = 0x80072EE7
      \<and> FAILED (m_connectAsyncOpResult (tasks p' 1)))
   \<and> (\<exists>p'. ConnectAsync_Completed (Some other_exception) Completed 10 1 example_process = Some p'
      \<and> completions p' = [(10, S_OK)]
      \<and> m_connectAsyncOpResult (tasks p' 1) = E_FAIL)"
  using connect_completion_outcome [where p = example_process and t = 1
      and sock = "new_MessageWebSocket 1" and writer_throws = None and status = Completed
      and asyncBlock = 10]
    connect_completion_outcome [where p = example_process and t = 1
      and sock = "new_MessageWebSocket 1" and writer_throws = None and status = Error
      and asyncBlock = 10]
    connect_completion_outcome [where p = example_process and t = 1
      and sock = "new_MessageWebSocket 1" and writer_throws = "Some (hresult_error 0x80072EE7)"
      and status = Error and asyncBlock = 10]
    connect_completion_outcome [where p = example_process and t = 1
      and sock = "new_MessageWebSocket 1" and writer_throws = "Some other_exception"
      and status = Completed and asyncBlock = 10]
  by (auto simp: example_process_def new_winrt_websocket_impl_def new_MessageWebSocket_def
      FAILED_def)

section \<open>Completion results\<close>

text \<open>
  C7 (completion-result uniformity). The result of connect retrieval, on a session with an
  implementation object, is the session, the generic status of the stored connect code,
  and that code. The result of send retrieval, when the context is found, the buffer is
  large enough and the implementation object has its session handle, is that session, the
  generic status of the code stored on the message, and that code. Whenever either
  retrieval gives a result, its generic status is the function \<open>generic_status\<close> of its
  platform code: failure exactly when the platform code indicates failure, success
  otherwise.
\<close>

theorem completion_result_uniform:
  "(impl (websockets p w) = Some t \<longrightarrow>
      WebsocketConnectGetResult w p =
        Some (S_OK,
              \<lparr>websocket = Some w,
               errorCode = generic_status (m_connectAsyncOpResult (tasks p t)),
               platformErrorCode = m_connectAsyncOpResult (tasks p t)\<rparr>))
   \<and> (fetch (shared_ptr_cache p) (data_context data) = Some sendMsgContext
        \<and> sizeof_WebSocketCompletionResult pf \<le> data_bufferSize data
        \<and> m_websocketHandle (tasks p (websocketTask sendMsgContext)) = Some h \<longrightarrow>
      WebsockSendMessageGetResult pf data p =
        (S_OK,
         Some \<lparr>websocket = Some h,
               errorCode = generic_status (m_storeAsyncResult (messages p (nextMessage sendMsgContext))),
               platformErrorCode = m_storeAsyncResult (messages p (nextMessage sendMsgContext))\<rparr>))
   \<and> (WebsocketConnectGetResult w p = Some (hr, r) \<longrightarrow>
        errorCode r = generic_status (platformErrorCode r))
   \<and> (WebsockSendMessageGetResult pf data p = (hr, Some r) \<longrightarrow>
        errorCode r = generic_status (platformErrorCode r))
   \<and> (generic_status c = E_FAIL \<longleftrightarrow> FAILED c)
   \<and> (generic_status c = S_OK \<longleftrightarrow> \<not> FAILED c)"
  by (auto simp: WebsocketConnectGetResult_def WebsockSendMessageGetResult_def generic_status_def
      fetch_def hresult_facts Let_def split: option.splits if_splits)

theorem completion_result_uniform_witness:
  "WebsocketConnectGetResult 1 example_process
     = Some (S_OK, \<lparr>websocket = Some 1, errorCode = S_OK, platformErrorCode = 0\<rparr>)
   \<and> WebsockSendMessageGetResult ok_platform \<lparr>data_context = Some 0, data_bufferSize = 16\<rparr>
         failed_send_process
       = (S_OK, Some \<lparr>websocket = Some 1, errorCode = E_FAIL, platformErrorCode = 0x80072EFD\<rparr>)"
  using completion_result_uniform [where p = example_process and w = 1 and t = 1
      and data = "\<lparr>data_context = Some 0, data_bufferSize = 16\<rparr>"
      and sendMsgContext = "\<lparr>nextMessage = 0, websocketTask = 1\<rparr>" and pf = ok_platform
      and h = 1 and hr = S_OK
      and r = "\<lparr>websocket = Some 1, errorCode = S_OK, platformErrorCode = 0\<rparr>" and c = 0]
    completion_result_uniform [where p = failed_send_process and w = 1 and t = 1
      and data = "\<lparr>data_context = Some 0, data_bufferSize = 16\<rparr>"
      and sendMsgContext = "\<lparr>nextMessage = 0, websocketTask = 1\<rparr>" and pf = ok_platform
      and h = 1 and hr = S_OK
      and r = "\<lparr>websocket = Some 1, errorCode = E_FAIL, platformErrorCode = 0x80072EFD\<rparr>"
      and c = "0x80072EFD"]
  by (simp add: example_process_def failed_send_process_def example_session_def
      new_winrt_websocket_impl_def ok_platform_def fetch_def generic_status_def FAILED_def
      S_OK_def new_websocket_outgoing_message_def)

section \<open>Receive dispatcher\<close>

text \<open>
  C9 (receive-path drop semantics). On a message-received event whose reader has no
  bytes, no callback is invoked: the process is unchanged. When bytes are available, the
  read returns and a message callback is registered, that callback is invoked exactly once,
  with the session and all the bytes as one payload. When getting the reader or reading
  the bytes throws, the exception is swallowed and no callback is invoked.
\<close>

theorem receive_dispatch:
  "(args = Inr reader \<and> buffered reader = [] \<longrightarrow> OnReceive m_websocket args p = p)
   \<and> (args = Inr reader \<and> buffered reader \<noteq> [] \<and> ReadBytes_throws reader = None
        \<and> messageFunc p = Some f \<longrightarrow>
        OnReceive m_websocket args p
          = p\<lparr>message_calls := message_calls p @ [(f, m_websocket, buffered reader)]\<rparr>)
   \<and> (args = Inl e \<longrightarrow> OnReceive m_websocket args p = p)
   \<and> (args = Inr reader \<and> ReadBytes_throws reader = Some e \<longrightarrow> OnReceive m_websocket args p = p)"
  by (auto simp: OnReceive_def OnReceive_try_def UnconsumedBufferLength_def ReadBytes_def Let_def
      split: option.splits sum.splits)

theorem receive_dispatch_witness:
  "OnReceive 1 (Inr \<lparr>buffered = [], ReadBytes_throws = None\<rparr>) example_process = example_process
   \<and> message_calls (OnReceive 1 (Inr \<lparr>buffered = [104, 105], ReadBytes_throws = None\<rparr>) example_process)
       = [(0, 1, [104, 105])]
   \<and> OnReceive 1 (Inl other_exception) example_process = example_process
   \<and> OnReceive 1 (Inr \<lparr>buffered = [104, 105], ReadBytes_throws = Some other_exception\<rparr>)
         example_process
       = example_process"
  using receive_dispatch [where args = "Inr \<lparr>buffered = [], ReadBytes_throws = None\<rparr>"
      and reader = "\<lparr>buffered = [], ReadBytes_throws = None\<rparr>" and m_websocket = 1
      and p = example_process and f = 0 and e = other_exception]
    receive_dispatch [where args = "Inr \<lparr>buffered = [104, 105], ReadBytes_throws = None\<rparr>"
      and reader = "\<lparr>buffered = [104, 105], ReadBytes_throws = None\<rparr>" and m_websocket = 1
      and p = example_process and f = 0 and e = other_exception]
    receive_dispatch [where args = "Inl other_exception"
      and reader = "\<lparr>buffered = [], ReadBytes_throws = None\<rparr>" and m_websocket = 1
      and p = example_process and f = 0 and e = other_exception]
    receive_dispatch [where
      args = "Inr \<lparr>buffered = [104, 105], ReadBytes_throws = Some other_exception\<rparr>"
      and reader = "\<lparr>buffered = [104, 105], ReadBytes_throws = Some other_exception\<rparr>"
      and m_websocket = 1 and p = example_process and f = 0 and e = other_exception]
  by (simp add: example_process_def)

section \<open>Identifiers\<close>




end
